theory Spec2Isabelle
  imports Complex_Main "HOL-Library.AList"
begin

section \<open>Conventions of the embedding\<close>

text \<open>
  The Python services of the job-search application are embedded as HOL functions.
  Python floats (scores, thresholds, bucket bounds, sleep durations) are read as the exact
  rationals their decimal literals denote: the code compares and copies them, and the one
  computation on them, the retry backoff, is done over the rationals. NaN and the
  infinities are outside the model. Strings are \<open>string\<close>; the character predicates
  cover ASCII, which is the alphabet the password generator draws from. Exceptions are
  values of a sum type (\<open>Inl\<close> the exception); effects on the outside (database rows,
  calls to collaborators, sleeps, readings of clock and entropy) are threaded as explicit
  state or taken as parameters.
\<close>

section \<open>Python values\<close>

text \<open>
  JSON values as \<open>json.loads\<close> produces them. A Python dict is an association list
  in insertion order: \<open>map_of\<close> reads a key, \<open>AList.update\<close> is \<open>d[k] = v\<close>
  (an existing key keeps its position, a new key goes to the end).
\<close>

datatype json =
    JNull
  | JBool bool
  | JNum rat
  | JStr string
  | JList "json list"
  | JObj "(string \<times> json) list"

text \<open>
  The exception classes the code tells apart, each with its \<open>str(e)\<close>.
  \<open>json.JSONDecodeError\<close> is a subclass of \<open>ValueError\<close>; every class here derives
  from \<open>Exception\<close>. \<open>IntegrityError\<close> is \<open>sqlite3.IntegrityError\<close>, raised by an
  insert that violates a constraint of the schema.
\<close>

datatype pyexn =
    ValueError string
  | JSONDecodeError string
  | KeyError string
  | AttributeError string
  | IntegrityError string
  | OtherException string

fun is_ValueError :: "pyexn \<Rightarrow> bool" where
  "is_ValueError (ValueError m) = True"
| "is_ValueError (JSONDecodeError m) = True"
| "is_ValueError e = False"

fun str_exn :: "pyexn \<Rightarrow> string" where
  "str_exn (ValueError m) = m"
| "str_exn (JSONDecodeError m) = m"
| "str_exn (KeyError k) = [CHR 0x27] @ k @ [CHR 0x27]"
| "str_exn (AttributeError m) = m"
| "str_exn (IntegrityError m) = m"
| "str_exn (OtherException m) = m"

text \<open>Timestamps (\<open>datetime.now()\<close>) are points of a discrete linear order.\<close>

type_synonym timestamp = nat

section \<open>Evaluation harness: relevance levels (experiments/title\_strategy\_evaluator.py)\<close>

text \<open>
  \<open>RELEVANCE_LEVELS\<close> is a dict literal; iteration follows insertion order, so it is
  an association list from the level name to its \<open>(min_score, max_score)\<close> pair. The
  bounds and the scores compared with them are two-digit decimal literals: rounding to
  the nearest double is monotone and maps equal literals to equal doubles, and distinct
  ones lie far more than a unit in the last place apart, so each comparison comes out as
  it does over the rationals.
\<close>

definition RELEVANCE_LEVELS :: "(string \<times> rat \<times> rat) list" where
  "RELEVANCE_LEVELS =
     [(''irrelevant'', 0, 2 / 10),
      (''low'', 2 / 10, 4 / 10),
      (''medium'', 4 / 10, 7 / 10),
      (''high'', 7 / 10, 9 / 10),
      (''very_high'', 9 / 10, 1)]"

definition LEVEL_ORDER :: "string list" where
  "LEVEL_ORDER = [''irrelevant'', ''low'', ''medium'', ''high'', ''very_high'']"

text \<open>
  The \<open>for level, (min_score, max_score) in ...items()\<close> loop of
  \<open>_get_relevance_level\<close>: the first level whose half-open range holds the score,
  \<open>None\<close> when the loop ends without returning.
\<close>

fun scan_levels :: "(string \<times> rat \<times> rat) list \<Rightarrow> rat \<Rightarrow> string option" where
  "scan_levels [] score = None"
| "scan_levels ((level, min_score, max_score) # rest) score =
     (if min_score \<le> score \<and> score < max_score then Some level
      else scan_levels rest score)"

definition get_relevance_level :: "rat \<Rightarrow> string" where
  "get_relevance_level score =
     (case scan_levels RELEVANCE_LEVELS score of
        Some level \<Rightarrow> level
      | None \<Rightarrow> if score = 1 then ''very_high'' else ''irrelevant'')"

text \<open>\<open>list.index\<close>: the first position of the value, or the \<open>ValueError\<close> (here \<open>None\<close>).\<close>

fun list_index :: "'a list \<Rightarrow> 'a \<Rightarrow> nat option" where
  "list_index [] v = None"
| "list_index (x # xs) v =
     (if x = v then Some 0 else map_option Suc (list_index xs v))"

text \<open>
  \<open>_calculate_level_distance\<close>: the \<open>except (ValueError, IndexError)\<close> branch returns
  \<open>len(LEVEL_ORDER) - 1\<close>.
\<close>

definition calculate_level_distance :: "string \<Rightarrow> string \<Rightarrow> int" where
  "calculate_level_distance expected_level predicted_level =
     (case list_index LEVEL_ORDER expected_level of
        None \<Rightarrow> int (length LEVEL_ORDER) - 1
      | Some expected_idx \<Rightarrow>
          (case list_index LEVEL_ORDER predicted_level of
             None \<Rightarrow> int (length LEVEL_ORDER) - 1
           | Some predicted_idx \<Rightarrow> \<bar>int expected_idx - int predicted_idx\<bar>))"

section \<open>Security utilities (utils/security.py)\<close>

text \<open>The constants of Python's \<open>string\<close> module.\<close>

definition ascii_lowercase :: string where
  "ascii_lowercase = ''abcdefghijklmnopqrstuvwxyz''"

definition ascii_uppercase :: string where
  "ascii_uppercase = ''ABCDEFGHIJKLMNOPQRSTUVWXYZ''"

definition ascii_letters :: string where
  "ascii_letters = ascii_lowercase @ ascii_uppercase"

definition digits :: string where
  "digits = ''0123456789''"

definition punctuation :: string where
  "punctuation =
     ''!'' @ [CHR 0x22] @ ''#$%&'' @ [CHR 0x27] @ ''()*+,-./:;<=>?@['' @ [CHR 0x5C]
       @ '']^_'' @ [CHR 0x60] @ ''{|}~''"

text \<open>\<open>str.islower\<close>, \<open>str.isupper\<close> and \<open>str.isdigit\<close> on one ASCII character.\<close>

definition islower :: "char \<Rightarrow> bool" where
  "islower c = (c \<in> set ascii_lowercase)"

definition isupper :: "char \<Rightarrow> bool" where
  "isupper c = (c \<in> set ascii_uppercase)"

definition isdigit :: "char \<Rightarrow> bool" where
  "isdigit c = (c \<in> set digits)"

text \<open>The decimal text of a natural number, as an f-string prints it.\<close>

fun str_nat :: "nat \<Rightarrow> string" where
  "str_nat n =
     (if n < 10 then [digits ! n] else str_nat (n div 10) @ [digits ! (n mod 10)])"

declare str_nat.simps [simp del]

text \<open>
  Modelled from the spec: \<open>constants/security.py\<close> is not among the sources; the spec
  gives the security tunable "minimum password length = 8".
\<close>

definition PASSWORD_MIN_LENGTH :: nat where
  "PASSWORD_MIN_LENGTH = 8"

definition validate_password :: "string \<Rightarrow> bool \<times> string option" where
  "validate_password password =
     (if length password < PASSWORD_MIN_LENGTH then
        (False, Some (''Password must be at least '' @ str_nat PASSWORD_MIN_LENGTH
                        @ '' characters long''))
      else if \<not> list_ex isupper password then
        (False, Some ''Password must contain at least one uppercase letter'')
      else if \<not> list_ex islower password then
        (False, Some ''Password must contain at least one lowercase letter'')
      else if \<not> list_ex isdigit password then
        (False, Some ''Password must contain at least one digit'')
      else if \<not> list_ex (\<lambda>c. c \<in> set punctuation) password then
        (False, Some ''Password must contain at least one special character'')
      else (True, None))"

definition alphabet :: string where
  "alphabet = ascii_letters @ digits @ punctuation"

text \<open>
  \<open>secrets.choice(seq)\<close> is \<open>seq[randbelow(len(seq))]\<close>. The entropy source is a
  parameter \<open>rnd\<close>: its \<open>k\<close>-th reading, reduced below the length of the sequence.
\<close>

definition secrets_choice :: "(nat \<Rightarrow> nat) \<Rightarrow> nat \<Rightarrow> string \<Rightarrow> char" where
  "secrets_choice rnd k seq = seq ! (rnd k mod length seq)"

text \<open>
  The \<open>while True\<close> loop of \<open>generate_password\<close>, with fuel for the number of
  candidates tried: \<open>None\<close> is a loop still running when the fuel is spent. \<open>k\<close> counts
  the readings of the entropy source consumed so far.
\<close>

fun generate_password_loop ::
  "nat \<Rightarrow> (nat \<Rightarrow> nat) \<Rightarrow> nat \<Rightarrow> nat \<Rightarrow> string option" where
  "generate_password_loop 0 rnd k len = None"
| "generate_password_loop (Suc fuel) rnd k len =
     (let password = map (\<lambda>i. secrets_choice rnd (k + i) alphabet) [0..<len]
      in if list_ex islower password \<and> list_ex isupper password
            \<and> 3 \<le> length (filter isdigit password)
         then Some password
         else generate_password_loop fuel rnd (k + len) len)"

definition generate_password :: "nat \<Rightarrow> (nat \<Rightarrow> nat) \<Rightarrow> nat \<Rightarrow> string option" where
  "generate_password fuel rnd len = generate_password_loop fuel rnd 0 len"

text \<open>An entropy source that replays a finite list of readings.\<close>

definition replay :: "nat list \<Rightarrow> nat \<Rightarrow> nat" where
  "replay xs k = (if k < length xs then xs ! k else 0)"

section \<open>Data model (database/models.py)\<close>

text \<open>The job state constants of \<open>JobStates\<close> and the list of valid states.\<close>

definition STATE_NEW_SCRAPED :: string where
  "STATE_NEW_SCRAPED = ''new_scraped''"

definition STATE_QUEUED_FOR_ANALYSIS :: string where
  "STATE_QUEUED_FOR_ANALYSIS = ''queued_for_analysis''"

definition STATE_ANALYZING :: string where
  "STATE_ANALYZING = ''analyzing''"

definition STATE_ANALYZED :: string where
  "STATE_ANALYZED = ''analyzed''"

definition STATE_RELEVANT :: string where
  "STATE_RELEVANT = ''relevant''"

definition STATE_IRRELEVANT :: string where
  "STATE_IRRELEVANT = ''irrelevant''"

definition STATE_VIEWED :: string where
  "STATE_VIEWED = ''viewed''"

definition STATE_SAVED :: string where
  "STATE_SAVED = ''saved''"

definition STATE_APPLIED :: string where
  "STATE_APPLIED = ''applied''"

definition STATE_REJECTED :: string where
  "STATE_REJECTED = ''rejected''"

definition VALID_STATES :: "string list" where
  "VALID_STATES =
     [STATE_NEW_SCRAPED, STATE_QUEUED_FOR_ANALYSIS, STATE_ANALYZING, STATE_ANALYZED,
      STATE_RELEVANT, STATE_IRRELEVANT, STATE_VIEWED, STATE_SAVED, STATE_APPLIED,
      STATE_REJECTED]"

text \<open>
  The analysis details dict that the job analysis service builds and stores. Python's
  \<open>None\<close> for \<open>full_analysis\<close> and the absence of the \<open>skip_reason\<close> key are both
  \<open>None\<close> here. The \<open>analysis_details\<close> column keeps the JSON text of this dict; the
  row holds the dict itself.
\<close>

record details =
  dt_title_analysis :: json
  dt_title_relevance :: rat
  dt_full_analysis :: "json option"
  dt_relevance_score :: rat
  dt_skip_reason :: "string option"

text \<open>
  One record per table, a field per column (prefixed by the table's initial). Nullable
  text columns are options.
\<close>

record user_row =
  u_user_id :: int
  u_username :: string
  u_password_hash :: string
  u_email :: "string option"
  u_created_at :: timestamp
  u_last_login :: "timestamp option"

record listing_row =
  internal_id :: nat
  l_job_id :: string
  l_title :: string
  l_company :: string
  l_location :: "string option"
  l_description :: "string option"
  l_url :: string
  l_scraped_at :: timestamp
  l_source_term :: "string option"

record state_row =
  state_id :: nat
  s_job_id :: string
  s_user_id :: int
  s_state :: string
  s_state_timestamp :: timestamp
  s_notes :: "string option"

record analysis_row =
  analysis_id :: nat
  a_job_id :: string
  a_user_id :: int
  a_relevance_score :: rat
  a_analysis_details :: details
  a_analyzed_at :: timestamp

text \<open>
  A row of \<open>user_preferences\<close>. The \<open>value\<close> column holds JSON text; \<open>json_loads\<close>
  (the library's \<open>json.loads\<close>) is a parameter of the readers, \<open>Inl\<close> its
  \<open>JSONDecodeError\<close> message.
\<close>

record pref_row =
  pref_id :: nat
  p_user_id :: int
  p_category :: string
  p_name :: string
  p_value :: string
  p_updated_at :: timestamp

text \<open>
  The database: each table is the list of its rows in insertion order, with the
  \<open>AUTOINCREMENT\<close> counters of the two tables the services insert into. The foreign
  keys of \<open>job_states\<close> and \<open>job_analysis\<close> are enforced (the connection runs
  \<open>PRAGMA foreign_keys = ON\<close>), see \<open>foreign_keys_ok\<close> below; failures of the engine
  by I/O or locking are not modelled.
\<close>

record database =
  users :: "user_row list"
  job_listings :: "listing_row list"
  job_states :: "state_row list"
  job_analysis :: "analysis_row list"
  user_preferences :: "pref_row list"
  state_seq :: nat
  analysis_seq :: nat

section \<open>Database service (services/database\_service.py)\<close>

text \<open>
  The foreign keys both \<open>job_states\<close> and \<open>job_analysis\<close> declare:
  \<open>job_id REFERENCES job_listings(job_id)\<close> and \<open>user_id REFERENCES users(user_id)\<close>.
  An insert of a row whose job has no listing row or whose user has no user row raises
  \<open>IntegrityError\<close>, and the transaction is rolled back.
\<close>

definition foreign_keys_ok :: "database \<Rightarrow> string \<Rightarrow> int \<Rightarrow> bool" where
  "foreign_keys_ok db job_id user_id =
     (list_ex (\<lambda>j. l_job_id j = job_id) (job_listings db)
      \<and> list_ex (\<lambda>u. u_user_id u = user_id) (users db))"

text \<open>
  \<open>add_job_state\<close>: the state is validated, then the row is inserted with
  \<open>now = datetime.datetime.now()\<close>, a parameter here. The insert raises
  \<open>IntegrityError\<close> when it violates a foreign key of \<open>job_states\<close>; otherwise the
  result is \<open>lastrowid\<close> with the new database.
\<close>

definition add_job_state ::
  "database \<Rightarrow> timestamp \<Rightarrow> string \<Rightarrow> int \<Rightarrow> string \<Rightarrow> string option
     \<Rightarrow> pyexn + (nat \<times> database)" where
  "add_job_state db now job_id user_id state notes =
     (if state \<notin> set VALID_STATES then Inl (ValueError (''Invalid state: '' @ state))
      else if \<not> foreign_keys_ok db job_id user_id
      then Inl (IntegrityError ''FOREIGN KEY constraint failed'')
      else
        (let new_id = Suc (state_seq db) in
         Inr (new_id,
              db\<lparr>job_states := job_states db @
                     [\<lparr>state_id = new_id, s_job_id = job_id, s_user_id = user_id,
                       s_state = state, s_state_timestamp = now, s_notes = notes\<rparr>],
                 state_seq := new_id\<rparr>)))"



text \<open>
  \<open>ORDER BY ... DESC\<close>. SQL leaves the order of rows with equal keys open; the model
  keeps them in insertion order (a stable sort). The theorems below that speak of
  membership hold for every such choice.
\<close>

definition order_by_desc :: "('a \<Rightarrow> timestamp) \<Rightarrow> 'a list \<Rightarrow> 'a list" where
  "order_by_desc key xs = sort_key (\<lambda>x. - int (key x)) xs"


text \<open>The rows of one (job, user) pair, in insertion order.\<close>

definition state_history_rows :: "database \<Rightarrow> string \<Rightarrow> int \<Rightarrow> state_row list" where
  "state_history_rows db job_id user_id =
     filter (\<lambda>r. s_job_id r = job_id \<and> s_user_id r = user_id) (job_states db)"





text \<open>\<open>get_current_job_state\<close>: \<open>ORDER BY state_timestamp DESC LIMIT 1\<close>, first row or \<open>None\<close>.\<close>

definition get_current_job_state :: "database \<Rightarrow> string \<Rightarrow> int \<Rightarrow> state_row option" where
  "get_current_job_state db job_id user_id =
     (case order_by_desc s_state_timestamp (state_history_rows db job_id user_id) of
        [] \<Rightarrow> None
      | row # rest \<Rightarrow> Some row)"

text \<open>
  \<open>delete_job\<close>, both branches of \<open>if user_id is not None\<close>. \<open>ref_count\<close> counts the
  distinct users of the \<open>UNION\<close>; \<open>rowcount\<close> is the number of listing rows deleted.
  Either branch deletes a listing row only when no state or analysis row names the job
  any more, so the deletes never violate a foreign key.
\<close>

definition delete_job :: "database \<Rightarrow> string \<Rightarrow> int option \<Rightarrow> bool \<times> database" where
  "delete_job db job_id user_id =
     (case user_id of
        Some uid \<Rightarrow>
          (let db1 = db\<lparr>job_states :=
                         filter (\<lambda>r. \<not> (s_job_id r = job_id \<and> s_user_id r = uid))
                           (job_states db)\<rparr>;
               db2 = db1\<lparr>job_analysis :=
                         filter (\<lambda>r. \<not> (a_job_id r = job_id \<and> a_user_id r = uid))
                           (job_analysis db1)\<rparr>;
               ref_count =
                 length (remdups
                   (map s_user_id (filter (\<lambda>r. s_job_id r = job_id) (job_states db2)) @
                    map a_user_id (filter (\<lambda>r. a_job_id r = job_id) (job_analysis db2))))
           in if ref_count = 0
              then (True, db2\<lparr>job_listings :=
                                filter (\<lambda>j. l_job_id j \<noteq> job_id) (job_listings db2)\<rparr>)
              else (True, db2))
      | None \<Rightarrow>
          (let db1 = db\<lparr>job_states := filter (\<lambda>r. s_job_id r \<noteq> job_id) (job_states db)\<rparr>;
               db2 = db1\<lparr>job_analysis :=
                         filter (\<lambda>r. a_job_id r \<noteq> job_id) (job_analysis db1)\<rparr>;
               rowcount = length (filter (\<lambda>j. l_job_id j = job_id) (job_listings db2))
           in (0 < rowcount,
               db2\<lparr>job_listings := filter (\<lambda>j. l_job_id j \<noteq> job_id) (job_listings db2)\<rparr>)))"

text \<open>A user references a job when a state row or an analysis row of his names it.\<close>

definition references_job :: "database \<Rightarrow> string \<Rightarrow> int \<Rightarrow> bool" where
  "references_job db job_id user_id =
     (list_ex (\<lambda>r. s_job_id r = job_id \<and> s_user_id r = user_id) (job_states db)
      \<or> list_ex (\<lambda>r. a_job_id r = job_id \<and> a_user_id r = user_id) (job_analysis db))"

section \<open>Configuration and preferences (config.py, services/preference\_service.py)\<close>

text \<open>
  The settings of \<open>Config\<close> that the default preferences read. \<open>RELEVANCE_THRESHOLD\<close>
  is \<open>float(os.getenv('RELEVANCE_THRESHOLD', 0.7))\<close>: the argument is the value of that
  environment variable when it is set.
\<close>

record config =
  DEFAULT_SEARCH_TERMS :: "string list"
  DEFAULT_LOCATIONS :: "string list"
  DEFAULT_SCHEDULE_TYPE :: string
  DEFAULT_EXECUTION_TIME :: string
  RELEVANCE_THRESHOLD :: rat

definition Config :: "rat option \<Rightarrow> config" where
  "Config env_RELEVANCE_THRESHOLD =
     \<lparr> DEFAULT_SEARCH_TERMS =
         [''AI Engineer'', ''Machine Learning Engineer'', ''Data Scientist''],
       DEFAULT_LOCATIONS = [''New York, NY'', ''San Francisco, CA''],
       DEFAULT_SCHEDULE_TYPE = ''daily'',
       DEFAULT_EXECUTION_TIME = ''08:00'',
       RELEVANCE_THRESHOLD =
         (case env_RELEVANCE_THRESHOLD of None \<Rightarrow> 7 / 10 | Some v \<Rightarrow> v) \<rparr>"

definition strs :: "string list \<Rightarrow> json" where
  "strs xs = JList (map JStr xs)"

type_synonym prefs = "(string \<times> (string \<times> json) list) list"

definition DEFAULT_PREFERENCES :: "config \<Rightarrow> prefs" where
  "DEFAULT_PREFERENCES cfg =
     [(''search'',
        [(''job_titles'', strs (DEFAULT_SEARCH_TERMS cfg)),
         (''locations'', strs (DEFAULT_LOCATIONS cfg)),
         (''experience_levels'', strs [''Entry level'', ''Associate'', ''Mid-Senior level'']),
         (''remote_preference'', JBool True)]),
      (''analysis'',
        [(''relevant_title_patterns'',
            strs [''AI'', ''Machine Learning'', ''ML'', ''Data Scientist'', ''NLP'',
                  ''Computer Vision'']),
         (''required_skills'', strs [''Python'', ''Machine Learning'']),
         (''preferred_skills'', strs [''TensorFlow'', ''PyTorch'', ''NLP'', ''Computer Vision'']),
         (''relevance_threshold'', JNum (RELEVANCE_THRESHOLD cfg)),
         (''title_match_strictness'', JNum (8 / 10))]),
      (''scheduling'',
        [(''schedule_type'', JStr (DEFAULT_SCHEDULE_TYPE cfg)),
         (''execution_time'', JStr (DEFAULT_EXECUTION_TIME cfg)),
         (''notifications_enabled'', JBool True)]),
      (''ui'',
        [(''dashboard_layout'', JStr ''default''),
         (''default_filters'', JObj [(''state'', JStr ''relevant'')]),
         (''mobile_view'', JStr ''compact'')]),
      (''technical'',
        [(''chrome_executable_path'', JNull),
         (''chrome_binary_location'', JNull)])]"

text \<open>The first loop of \<open>get_all_preferences\<close>, over the rows the query returned.\<close>

fun load_rows ::
  "(string \<Rightarrow> string + json) \<Rightarrow> pref_row list \<Rightarrow> prefs \<Rightarrow> pyexn + prefs" where
  "load_rows json_loads [] preferences = Inr preferences"
| "load_rows json_loads (pref # results) preferences =
     (case json_loads (p_value pref) of
        Inl msg \<Rightarrow> Inl (JSONDecodeError msg)
      | Inr v \<Rightarrow>
          (let preferences1 =
                 (if p_category pref \<notin> fst ` set preferences
                  then AList.update (p_category pref) [] preferences else preferences);
               inner = (case map_of preferences1 (p_category pref) of
                          Some d \<Rightarrow> d | None \<Rightarrow> [])
           in load_rows json_loads results
                (AList.update (p_category pref) (AList.update (p_name pref) v inner)
                   preferences1)))"

text \<open>The inner loop that fills the missing names of one category.\<close>

fun fill_names :: "(string \<times> json) list \<Rightarrow> (string \<times> json) list \<Rightarrow> (string \<times> json) list" where
  "fill_names [] d = d"
| "fill_names ((name, default_value) # rest) d =
     fill_names rest (if name \<notin> fst ` set d then AList.update name default_value d else d)"

text \<open>The outer loop over \<open>DEFAULT_PREFERENCES.items()\<close>.\<close>

fun fill_categories :: "prefs \<Rightarrow> prefs \<Rightarrow> prefs" where
  "fill_categories [] preferences = preferences"
| "fill_categories ((category, default_prefs) # rest) preferences =
     (let preferences1 =
            (if category \<notin> fst ` set preferences
             then AList.update category [] preferences else preferences);
          inner = (case map_of preferences1 category of Some d \<Rightarrow> d | None \<Rightarrow> [])
      in fill_categories rest
           (AList.update category (fill_names default_prefs inner) preferences1))"

text \<open>
  \<open>get_all_preferences\<close>: the rows \<open>WHERE user_id = ?\<close>, then the defaults.
\<close>

definition get_all_preferences ::
  "config \<Rightarrow> (string \<Rightarrow> string + json) \<Rightarrow> database \<Rightarrow> int \<Rightarrow> pyexn + prefs" where
  "get_all_preferences cfg json_loads db user_id =
     (case load_rows json_loads (filter (\<lambda>r. p_user_id r = user_id) (user_preferences db)) [] of
        Inl e \<Rightarrow> Inl e
      | Inr preferences \<Rightarrow> Inr (fill_categories (DEFAULT_PREFERENCES cfg) preferences))"

section \<open>LLM JSON parser (services/llm\_json\_parser.py)\<close>











section \<open>Title analysis strategy (services/analysis\_strategy.py)\<close>

text \<open>
  \<open>analysis.get(key, default)\<close> on whatever the parser returned: only a dict has
  \<open>get\<close>, any other value raises \<open>AttributeError\<close>.
\<close>

fun py_get :: "json \<Rightarrow> string \<Rightarrow> json \<Rightarrow> pyexn + json" where
  "py_get (JObj d) key dflt = (case map_of d key of Some v \<Rightarrow> Inr v | None \<Rightarrow> Inr dflt)"
| "py_get v key dflt = Inl (AttributeError ''object has no attribute get'')"

text \<open>
  The strategy object: its collaborators and the two attributes set by \<open>__init__\<close>.
  The LLM provider is a function of the number of earlier calls and the prompt, so that
  it may answer differently from call to call; \<open>Inl\<close> is the exception it raises.
\<close>

record strategy =
  llm_provider :: "nat \<Rightarrow> string \<Rightarrow> pyexn + string"
  json_parser :: "string \<Rightarrow> pyexn + json"
  max_retries :: nat
  retry_delay :: nat

definition TitleAnalysisStrategy ::
  "(nat \<Rightarrow> string \<Rightarrow> pyexn + string) \<Rightarrow> (string \<Rightarrow> pyexn + json) \<Rightarrow> strategy" where
  "TitleAnalysisStrategy llm parser =
     \<lparr>llm_provider = llm, json_parser = parser, max_retries = 3, retry_delay = 2\<rparr>"

text \<open>
  What the strategy does to the outside: the prompts passed to \<open>generate_completion\<close>
  in call order, the arguments of \<open>time.sleep\<close> in order, and the number of readings of
  \<open>random.random()\<close> taken.
\<close>

record effects =
  llm_calls :: "string list"
  sleeps :: "rat list"
  random_reads :: nat

text \<open>The body of the \<open>try\<close> block of one attempt.\<close>

definition title_attempt :: "strategy \<Rightarrow> string \<Rightarrow> effects \<Rightarrow> pyexn + (json \<times> json)" where
  "title_attempt S prompt w =
     (case llm_provider S (length (llm_calls w)) prompt of
        Inl e \<Rightarrow> Inl e
      | Inr content \<Rightarrow>
          (case json_parser S content of
             Inl e \<Rightarrow> Inl e
           | Inr analysis \<Rightarrow>
               (case py_get analysis ''estimated_relevance'' (JNum 0) of
                  Inl e \<Rightarrow> Inl e
                | Inr score \<Rightarrow> Inr (score, analysis))))"

text \<open>
  The loop \<open>for attempt in range(self.max_retries)\<close> over the attempt numbers still to
  run. \<open>Inl\<close> is an exception leaving \<open>analyze\<close>, \<open>Inr (Some (score, analysis))\<close> a
  returned pair, \<open>Inr None\<close> the loop running out. \<open>rnd\<close> gives the readings of
  \<open>random.random()\<close>.
\<close>

fun title_attempts ::
  "strategy \<Rightarrow> (nat \<Rightarrow> rat) \<Rightarrow> string \<Rightarrow> nat list \<Rightarrow> effects
     \<Rightarrow> (pyexn + (json \<times> json) option) \<times> effects" where
  "title_attempts S rnd prompt [] w = (Inr None, w)"
| "title_attempts S rnd prompt (attempt # rest) w =
     (let w1 = w\<lparr>llm_calls := llm_calls w @ [prompt]\<rparr> in
      case title_attempt S prompt w of
        Inr r \<Rightarrow> (Inr (Some r), w1)
      | Inl e \<Rightarrow>
          if is_ValueError e then (Inl e, w1)
          else if int attempt < int (max_retries S) - 1 then
            (let backoff = retry_delay S * 2 ^ attempt in
             title_attempts S rnd prompt rest
               (w1\<lparr>sleeps := sleeps w1 @
                       [of_nat backoff + of_nat backoff * (2 / 10) * rnd (random_reads w1)],
                    random_reads := Suc (random_reads w1)\<rparr>))
          else
            (Inr (Some (JNum 0,
                        JObj [(''estimated_relevance'', JNum 0),
                              (''reasoning'', JStr ''API error''),
                              (''error'', JStr (str_exn e))])), w1))"

text \<open>
  \<open>TitleAnalysisStrategy.analyze\<close> from the prompt on (the prompt is built from the
  keyword arguments by the prompt templates before the loop starts).
\<close>

definition TitleAnalysisStrategy_analyze ::
  "strategy \<Rightarrow> (nat \<Rightarrow> rat) \<Rightarrow> string \<Rightarrow> effects
     \<Rightarrow> (pyexn + (json \<times> json) option) \<times> effects" where
  "TitleAnalysisStrategy_analyze S rnd prompt w =
     title_attempts S rnd prompt [0..<max_retries S] w"

section \<open>Job analysis service (constants/analysis.py, services/job\_analysis\_service.py)\<close>



text \<open>
  A job is a dict from column names to text. Of the analysis preferences the service
  reads the two numeric entries, so the dict is a map to numbers.
\<close>

type_synonym job = "string \<rightharpoonup> string"




















section \<open>Sample states\<close>



definition listing_X :: listing_row where
  "listing_X =
     \<lparr>internal_id = 0, l_job_id = ''X'', l_title = ''ML Engineer'', l_company = ''Acme'',
      l_location = None, l_description = None, l_url = ''https://jobs.example/X'',
      l_scraped_at = 0, l_source_term = None\<rparr>"

definition user_1 :: user_row where
  "user_1 =
     \<lparr>u_user_id = 1, u_username = ''ada'', u_password_hash = ''$2b$12$hash'', u_email = None,
      u_created_at = 0, u_last_login = None\<rparr>"

definition user_2 :: user_row where
  "user_2 =
     \<lparr>u_user_id = 2, u_username = ''bob'', u_password_hash = ''$2b$12$hash'', u_email = None,
      u_created_at = 0, u_last_login = None\<rparr>"




text \<open>A small database: user 1, one listing \<open>X\<close> and the given state rows.\<close>

definition small_db :: "state_row list \<Rightarrow> database" where
  "small_db rows =
     \<lparr>users = [user_1],
      job_listings = [listing_X],
      job_states = rows,
      job_analysis = [],
      user_preferences = [],
      state_seq = length rows,
      analysis_seq = 0\<rparr>"







text \<open>Two users who both follow job \<open>X\<close>, each with state rows and an analysis row.\<close>

definition sample_details :: details where
  "sample_details =
     \<lparr>dt_title_analysis = JObj [], dt_title_relevance = 9 / 10, dt_full_analysis = None,
      dt_relevance_score = 9 / 10, dt_skip_reason = None\<rparr>"

definition shared_db :: database where
  "shared_db =
     \<lparr>users = [user_1, user_2],
      job_listings = [listing_X],
      job_states =
        [\<lparr>state_id = 1, s_job_id = ''X'', s_user_id = 1, s_state = STATE_NEW_SCRAPED,
          s_state_timestamp = 1, s_notes = None\<rparr>,
         \<lparr>state_id = 2, s_job_id = ''X'', s_user_id = 2, s_state = STATE_NEW_SCRAPED,
          s_state_timestamp = 2, s_notes = None\<rparr>,
         \<lparr>state_id = 3, s_job_id = ''X'', s_user_id = 1, s_state = STATE_RELEVANT,
          s_state_timestamp = 3, s_notes = None\<rparr>],
      job_analysis =
        [\<lparr>analysis_id = 1, a_job_id = ''X'', a_user_id = 1, a_relevance_score = 9 / 10,
          a_analysis_details = sample_details, a_analyzed_at = 3\<rparr>,
         \<lparr>analysis_id = 2, a_job_id = ''X'', a_user_id = 2, a_relevance_score = 9 / 10,
          a_analysis_details = sample_details, a_analyzed_at = 4\<rparr>],
      user_preferences = [],
      state_seq = 3,
      analysis_seq = 2\<rparr>"

section \<open>Theorems\<close>

subsection \<open>Relevance bucketing\<close>

text \<open>
  C9. The level mapping sends 0.0 and 0.19 to \<open>irrelevant\<close>, 0.2 to \<open>low\<close>, 0.69 to
  \<open>medium\<close>, 0.7 and 0.89 to \<open>high\<close>, 0.9 and 1.0 to \<open>very_high\<close>; the score 1.0
  falls through the range loop (no half-open range holds it) and is caught by the
  dedicated edge case; the distance between \<open>irrelevant\<close> and \<open>very_high\<close> is 4.
\<close>

theorem relevance_bucketing:
  "get_relevance_level 0 = ''irrelevant''
   \<and> get_relevance_level (19 / 100) = ''irrelevant''
   \<and> get_relevance_level (2 / 10) = ''low''
   \<and> get_relevance_level (69 / 100) = ''medium''
   \<and> get_relevance_level (7 / 10) = ''high''
   \<and> get_relevance_level (89 / 100) = ''high''
   \<and> get_relevance_level (9 / 10) = ''very_high''
   \<and> get_relevance_level 1 = ''very_high''
   \<and> scan_levels RELEVANCE_LEVELS 1 = None
   \<and> calculate_level_distance ''irrelevant'' ''very_high'' = 4"
  by (simp add: get_relevance_level_def RELEVANCE_LEVELS_def calculate_level_distance_def
      LEVEL_ORDER_def)

subsection \<open>Password generation and validation\<close>

lemma generate_password_loop_accepts:
  "generate_password_loop fuel rnd k len = Some p \<Longrightarrow>
   length p = len \<and> list_ex islower p \<and> list_ex isupper p
     \<and> 3 \<le> length (filter isdigit p)"
  by (induction fuel arbitrary: k) (auto simp: Let_def split: if_splits)

lemma three_digits_ex: "3 \<le> length (filter isdigit p) \<Longrightarrow> list_ex isdigit p"
  by (induction p) (auto split: if_splits)

text \<open>
  What the generator guarantees towards the validator: a generated password of the
  minimum length or more passes exactly when it happens to hold a punctuation character,
  which the acceptance test of the generator does not ask for.
\<close>

lemma generated_password_validity:
  assumes "generate_password fuel rnd len = Some p" and "PASSWORD_MIN_LENGTH \<le> len"
  shows "validate_password p =
           (if list_ex (\<lambda>c. c \<in> set punctuation) p then (True, None)
            else (False, Some ''Password must contain at least one special character''))"
proof -
  have a: "length p = len \<and> list_ex islower p \<and> list_ex isupper p
             \<and> 3 \<le> length (filter isdigit p)"
    using assms(1) generate_password_loop_accepts by (simp add: generate_password_def)
  then have "list_ex isdigit p" using three_digits_ex by blast
  with a assms(2) show ?thesis by (simp add: validate_password_def)
qed

text \<open>
  C8 (the code departs from the claim). With the default length 12 and the entropy
  readings 0, 27, 53, 54, 55, 0, ..., 0 the first candidate is \<open>aB123aaaaaaa\<close>: it has a
  lowercase letter, an uppercase letter and three digits, so the generator returns it,
  and \<open>validate_password\<close> rejects it for want of a special character.
\<close>

theorem generated_password_rejected:
  "generate_password 1 (replay [0, 27, 53, 54, 55, 0, 0, 0, 0, 0, 0, 0]) 12
     = Some ''aB123aaaaaaa''
   \<and> validate_password ''aB123aaaaaaa''
     = (False, Some ''Password must contain at least one special character'')"
  by code_simp

subsection \<open>Preference default-filling\<close>

lemma update_fresh: "k \<notin> fst ` set d \<Longrightarrow> AList.update k v d = d @ [(k, v)]"
  by (induction d) auto

lemma fill_names_fresh:
  "distinct (map fst ds) \<Longrightarrow> fst ` set d \<inter> fst ` set ds = {} \<Longrightarrow> fill_names ds d = d @ ds"
proof (induction ds arbitrary: d)
  case Nil
  then show ?case by simp
next
  case (Cons a ds)
  obtain n v where a: "a = (n, v)" by (cases a)
  have 1: "n \<notin> fst ` set d" using Cons.prems a by auto
  have 2: "AList.update n v d = d @ [(n, v)]" using 1 by (rule update_fresh)
  show ?case using Cons a 1 2 by (auto simp: image_Un)
qed

lemma fill_categories_fresh:
  "distinct (map fst ds) \<Longrightarrow> (\<forall>d \<in> snd ` set ds. distinct (map fst d)) \<Longrightarrow>
   fst ` set p \<inter> fst ` set ds = {} \<Longrightarrow> fill_categories ds p = p @ ds"
proof (induction ds arbitrary: p)
  case Nil
  then show ?case by simp
next
  case (Cons a ds)
  obtain c d where a: "a = (c, d)" by (cases a)
  have 1: "c \<notin> fst ` set p" using Cons.prems a by auto
  have 2: "AList.update c [] p = p @ [(c, [])]" using 1 by (rule update_fresh)
  have 3: "map_of (p @ [(c, [])]) c = Some []" using 1
    by (simp add: map_add_Some_iff map_of_eq_None_iff)
  have 4: "AList.update c (fill_names d []) (p @ [(c, [])]) = p @ [(c, fill_names d [])]"
    using 1 by (induction p) auto
  have 5: "fill_names d [] = d" using Cons.prems a fill_names_fresh [of d "[]"] by simp
  have 6: "fst ` set (p @ [(c, d)]) \<inter> fst ` set ds = {}" using Cons.prems a by auto
  have "fill_categories (a # ds) p = fill_categories ds (p @ [(c, d)])"
    using a 1 2 3 4 5 by simp
  also have "\<dots> = (p @ [(c, d)]) @ ds"
    using Cons.IH [of "p @ [(c, d)]"] Cons.prems 6 by simp
  finally show ?case using a by simp
qed

lemma default_categories_distinct: "distinct (map fst (DEFAULT_PREFERENCES cfg))"
  by (simp add: DEFAULT_PREFERENCES_def)

lemma default_names_distinct:
  "\<forall>d \<in> snd ` set (DEFAULT_PREFERENCES cfg). distinct (map fst d)"
  by (simp add: DEFAULT_PREFERENCES_def)

lemma fill_categories_empty:
  "fill_categories (DEFAULT_PREFERENCES cfg) [] = DEFAULT_PREFERENCES cfg"
  using fill_categories_fresh [OF default_categories_distinct default_names_distinct, of "[]" cfg]
  by simp

text \<open>
  C6. For a user with no persisted preference row, \<open>get_all_preferences\<close> returns the
  static default table, every category and key of it and nothing else; with
  \<open>RELEVANCE_THRESHOLD\<close> unset in the environment its values are the documented
  literals.
\<close>

theorem get_all_preferences_new_user:
  assumes "filter (\<lambda>r. p_user_id r = user_id) (user_preferences db) = []"
  shows "get_all_preferences cfg json_loads db user_id
           = Inr (DEFAULT_PREFERENCES cfg)
         \<and> get_all_preferences (Config None) json_loads db user_id
           = Inr
              [(''search'',
                 [(''job_titles'',
                     JList [JStr ''AI Engineer'', JStr ''Machine Learning Engineer'',
                            JStr ''Data Scientist'']),
                  (''locations'', JList [JStr ''New York, NY'', JStr ''San Francisco, CA'']),
                  (''experience_levels'',
                     JList [JStr ''Entry level'', JStr ''Associate'', JStr ''Mid-Senior level'']),
                  (''remote_preference'', JBool True)]),
               (''analysis'',
                 [(''relevant_title_patterns'',
                     JList [JStr ''AI'', JStr ''Machine Learning'', JStr ''ML'',
                            JStr ''Data Scientist'', JStr ''NLP'', JStr ''Computer Vision'']),
                  (''required_skills'', JList [JStr ''Python'', JStr ''Machine Learning'']),
                  (''preferred_skills'',
                     JList [JStr ''TensorFlow'', JStr ''PyTorch'', JStr ''NLP'',
                            JStr ''Computer Vision'']),
                  (''relevance_threshold'', JNum (7 / 10)),
                  (''title_match_strictness'', JNum (8 / 10))]),
               (''scheduling'',
                 [(''schedule_type'', JStr ''daily''),
                  (''execution_time'', JStr ''08:00''),
                  (''notifications_enabled'', JBool True)]),
               (''ui'',
                 [(''dashboard_layout'', JStr ''default''),
                  (''default_filters'', JObj [(''state'', JStr ''relevant'')]),
                  (''mobile_view'', JStr ''compact'')]),
               (''technical'',
                 [(''chrome_executable_path'', JNull),
                  (''chrome_binary_location'', JNull)])]"
proof -
  have "get_all_preferences c json_loads db user_id = Inr (DEFAULT_PREFERENCES c)"
    for c
    using assms by (simp add: get_all_preferences_def fill_categories_empty)
  then show ?thesis by (simp add: DEFAULT_PREFERENCES_def Config_def strs_def)
qed

theorem get_all_preferences_new_user_witness:
  "filter (\<lambda>r. p_user_id r = 3)
     (user_preferences
        ((small_db [])\<lparr>user_preferences :=
           [\<lparr>pref_id = 1, p_user_id = 7, p_category = ''ui'', p_name = ''mobile_view'',
             p_value = ''full'', p_updated_at = 0\<rparr>]\<rparr>)) = []
   \<and> get_all_preferences (Config None) (\<lambda>s. Inl ''no JSON'')
       ((small_db [])\<lparr>user_preferences :=
           [\<lparr>pref_id = 1, p_user_id = 7, p_category = ''ui'', p_name = ''mobile_view'',
             p_value = ''full'', p_updated_at = 0\<rparr>]\<rparr>) 3
     = Inr (DEFAULT_PREFERENCES (Config None))"
  using get_all_preferences_new_user
    [of 3 "(small_db [])\<lparr>user_preferences :=
           [\<lparr>pref_id = 1, p_user_id = 7, p_category = ''ui'', p_name = ''mobile_view'',
             p_value = ''full'', p_updated_at = 0\<rparr>]\<rparr>" "Config None" "\<lambda>s. Inl ''no JSON''"]
  by (simp add: small_db_def)

subsection \<open>Latest-state queries\<close>



lemma strict_last_max:
  "sorted_wrt (<) (map f xs) \<Longrightarrow> x \<in> set xs \<Longrightarrow> (f x :: nat) \<le> f (last xs)"
proof (induction xs)
  case Nil
  then show ?case by simp
next
  case (Cons a xs)
  then show ?case by (cases "xs = []") (auto simp: less_imp_le)
qed

lemma strict_inj: "sorted_wrt (<) (map f xs) \<Longrightarrow> x \<in> set xs \<Longrightarrow> y \<in> set xs \<Longrightarrow> (f x :: nat) = f y \<Longrightarrow> x = y"
proof (induction xs)
  case Nil
  then show ?case by simp
next
  case (Cons a xs)
  then show ?case by auto
qed

lemma order_by_desc_hd:
  assumes "order_by_desc key xs = r # rest"
  shows "r \<in> set xs \<and> (\<forall>x \<in> set xs. key x \<le> key r)"
proof -
  let ?k = "\<lambda>x. - int (key x)"
  have s: "sorted (map ?k (r # rest))" using assms sorted_sort_key [of ?k xs]
    by (simp add: order_by_desc_def)
  have m: "set (r # rest) = set xs" using assms set_sort [of ?k xs]
    by (simp add: order_by_desc_def)
  have "\<forall>x \<in> set (r # rest). ?k r \<le> ?k x" using s by auto
  then show ?thesis using m by auto
qed

lemma order_by_desc_Nil: "order_by_desc key xs = [] \<longleftrightarrow> xs = []"
  by (metis order_by_desc_def set_empty set_sort)

lemma current_is_last:
  assumes "state_history_rows db job user \<noteq> []"
      and "sorted_wrt (<) (map s_state_timestamp (state_history_rows db job user))"
  shows "get_current_job_state db job user = Some (last (state_history_rows db job user))"
proof -
  let ?h = "state_history_rows db job user"
  obtain r rest where o: "order_by_desc s_state_timestamp ?h = r # rest"
    using assms(1) order_by_desc_Nil by (metis list.exhaust)
  have r: "r \<in> set ?h" "\<forall>x \<in> set ?h. s_state_timestamp x \<le> s_state_timestamp r"
    using order_by_desc_hd [OF o] by simp_all
  have l: "last ?h \<in> set ?h" using assms(1) by simp
  have "s_state_timestamp r \<le> s_state_timestamp (last ?h)"
    using strict_last_max [OF assms(2) r(1)] .
  moreover have "s_state_timestamp (last ?h) \<le> s_state_timestamp r" using r(2) l by blast
  ultimately have "r = last ?h" using strict_inj [OF assms(2) r(1) l] by simp
  then show ?thesis using o by (simp add: get_current_job_state_def)
qed


text \<open>
  Appending through \<open>add_job_state\<close> at a time later than every row of the pair keeps
  the history strictly increasing and makes the new row the current state.
\<close>

lemma add_job_state_history:
  assumes "add_job_state db now job user st notes = Inr (i, db')"
  shows "state_history_rows db' job user =
           state_history_rows db job user @
             [\<lparr>state_id = i, s_job_id = job, s_user_id = user, s_state = st,
               s_state_timestamp = now, s_notes = notes\<rparr>]"
  using assms
  by (auto simp: add_job_state_def state_history_rows_def Let_def split: if_splits)

lemma appended_state_is_current:
  assumes "add_job_state db now job user st notes = Inr (i, db')"
      and "sorted_wrt (<) (map s_state_timestamp (state_history_rows db job user))"
      and "\<forall>r \<in> set (state_history_rows db job user). s_state_timestamp r < now"
  shows "sorted_wrt (<) (map s_state_timestamp (state_history_rows db' job user))
       \<and> get_current_job_state db' job user =
           Some \<lparr>state_id = i, s_job_id = job, s_user_id = user, s_state = st,
                 s_state_timestamp = now, s_notes = notes\<rparr>"
proof -
  let ?new = "\<lparr>state_id = i, s_job_id = job, s_user_id = user, s_state = st,
                 s_state_timestamp = now, s_notes = notes\<rparr>"
  have h: "state_history_rows db' job user = state_history_rows db job user @ [?new]"
    using add_job_state_history [OF assms(1)] .
  have s: "sorted_wrt (<) (map s_state_timestamp (state_history_rows db' job user))"
    unfolding h using assms(2,3) by (simp add: sorted_wrt_append)
  have "get_current_job_state db' job user = Some (last (state_history_rows db' job user))"
    using current_is_last [OF _ s] h by simp
  then show ?thesis using s h by simp
qed















subsection \<open>Deleting a job\<close>

lemma ref_count_zero:
  "(length (remdups
      (map s_user_id (filter (\<lambda>r. s_job_id r = job)
         (filter (\<lambda>r. \<not> (s_job_id r = job \<and> s_user_id r = A)) (job_states db))) @
       map a_user_id (filter (\<lambda>r. a_job_id r = job)
         (filter (\<lambda>r. \<not> (a_job_id r = job \<and> a_user_id r = A)) (job_analysis db))))) = 0)
   = (\<not> (\<exists>u. u \<noteq> A \<and> references_job db job u))"
  by (auto simp: references_job_def list_ex_iff filter_empty_conv)

lemma delete_job_user_kept:
  assumes "\<exists>u. u \<noteq> A \<and> references_job db job u"
  shows "delete_job db job (Some A) =
     (True,
      db\<lparr>job_states := filter (\<lambda>r. \<not> (s_job_id r = job \<and> s_user_id r = A)) (job_states db),
         job_analysis :=
           filter (\<lambda>r. \<not> (a_job_id r = job \<and> a_user_id r = A)) (job_analysis db)\<rparr>)"
  using assms ref_count_zero [of job A db] by (auto simp add: delete_job_def Let_def)

lemma delete_job_user_last:
  assumes "\<not> (\<exists>u. u \<noteq> A \<and> references_job db job u)"
  shows "delete_job db job (Some A) =
     (True,
      db\<lparr>job_states := filter (\<lambda>r. \<not> (s_job_id r = job \<and> s_user_id r = A)) (job_states db),
         job_analysis :=
           filter (\<lambda>r. \<not> (a_job_id r = job \<and> a_user_id r = A)) (job_analysis db),
         job_listings := filter (\<lambda>j. l_job_id j \<noteq> job) (job_listings db)\<rparr>)"
  using assms ref_count_zero [of job A db] by (auto simp add: delete_job_def Let_def)

text \<open>
  C3. Users \<open>A\<close> and \<open>B\<close> both reference a job and nobody else does. Deleting the
  job for \<open>A\<close> returns \<open>True\<close>, removes exactly the state rows and the analysis row
  of \<open>A\<close> for that job, keeps the listing rows and leaves every row of \<open>B\<close> as it
  was; deleting it for \<open>B\<close> afterwards returns \<open>True\<close>, removes the rows of \<open>B\<close> and
  the listing row of the job.
\<close>

theorem delete_job_isolation:
  assumes "A \<noteq> B" and "references_job db job B"
      and "\<forall>u. references_job db job u \<longrightarrow> u = A \<or> u = B"
      and "delete_job db job (Some A) = (okA, dbA)"
      and "delete_job dbA job (Some B) = (okB, dbB)"
  shows "okA = True
       \<and> job_states dbA = filter (\<lambda>r. \<not> (s_job_id r = job \<and> s_user_id r = A)) (job_states db)
       \<and> job_analysis dbA
           = filter (\<lambda>r. \<not> (a_job_id r = job \<and> a_user_id r = A)) (job_analysis db)
       \<and> job_listings dbA = job_listings db
       \<and> filter (\<lambda>r. s_user_id r = B) (job_states dbA) = filter (\<lambda>r. s_user_id r = B) (job_states db)
       \<and> filter (\<lambda>r. a_user_id r = B) (job_analysis dbA)
           = filter (\<lambda>r. a_user_id r = B) (job_analysis db)
       \<and> okB = True
       \<and> job_states dbB = filter (\<lambda>r. s_job_id r \<noteq> job) (job_states db)
       \<and> job_analysis dbB = filter (\<lambda>r. a_job_id r \<noteq> job) (job_analysis db)
       \<and> job_listings dbB = filter (\<lambda>j. l_job_id j \<noteq> job) (job_listings db)"
proof -
  have rA: "\<exists>u. u \<noteq> A \<and> references_job db job u" using assms(1,2) by auto
  have A: "okA = True"
     "job_states dbA = filter (\<lambda>r. \<not> (s_job_id r = job \<and> s_user_id r = A)) (job_states db)"
     "job_analysis dbA = filter (\<lambda>r. \<not> (a_job_id r = job \<and> a_user_id r = A)) (job_analysis db)"
     "job_listings dbA = job_listings db"
    using assms(4) delete_job_user_kept [OF rA] by auto
  have keepS: "filter (\<lambda>r. s_user_id r = B) (job_states dbA) = filter (\<lambda>r. s_user_id r = B) (job_states db)"
    unfolding A(2) using assms(1) by (auto intro: filter_cong)
  have keepA: "filter (\<lambda>r. a_user_id r = B) (job_analysis dbA) = filter (\<lambda>r. a_user_id r = B) (job_analysis db)"
    unfolding A(3) using assms(1) by (auto intro: filter_cong)
  have only: "\<not> (\<exists>u. u \<noteq> B \<and> references_job dbA job u)"
    using assms(3) A(2,3) by (auto simp: references_job_def list_ex_iff)
  have sA: "s_job_id r = job \<Longrightarrow> s_user_id r = A \<or> s_user_id r = B" if "r \<in> set (job_states db)" for r
    using assms(3) that by (auto simp: references_job_def list_ex_iff)
  have aA: "a_job_id r = job \<Longrightarrow> a_user_id r = A \<or> a_user_id r = B" if "r \<in> set (job_analysis db)" for r
    using assms(3) that by (auto simp: references_job_def list_ex_iff)
  have B: "okB = True"
     "job_states dbB = filter (\<lambda>r. \<not> (s_job_id r = job \<and> s_user_id r = B)) (job_states dbA)"
     "job_analysis dbB = filter (\<lambda>r. \<not> (a_job_id r = job \<and> a_user_id r = B)) (job_analysis dbA)"
     "job_listings dbB = filter (\<lambda>j. l_job_id j \<noteq> job) (job_listings dbA)"
    using assms(5) delete_job_user_last [OF only] by auto
  have S: "job_states dbB = filter (\<lambda>r. s_job_id r \<noteq> job) (job_states db)"
    unfolding B(2) A(2) using sA by (auto intro: filter_cong)
  have An: "job_analysis dbB = filter (\<lambda>r. a_job_id r \<noteq> job) (job_analysis db)"
    unfolding B(3) A(3) using aA by (auto intro: filter_cong)
  show ?thesis using A keepS keepA B(1) S An B(4) by simp
qed

theorem delete_job_isolation_witness:
  "delete_job shared_db ''X'' (Some 1) =
     (True, shared_db
        \<lparr>job_states :=
           [\<lparr>state_id = 2, s_job_id = ''X'', s_user_id = 2, s_state = STATE_NEW_SCRAPED,
             s_state_timestamp = 2, s_notes = None\<rparr>],
         job_analysis :=
           [\<lparr>analysis_id = 2, a_job_id = ''X'', a_user_id = 2, a_relevance_score = 9 / 10,
             a_analysis_details = sample_details, a_analyzed_at = 4\<rparr>]\<rparr>)
   \<and> delete_job (snd (delete_job shared_db ''X'' (Some 1))) ''X'' (Some 2) =
     (True, shared_db\<lparr>job_listings := [], job_states := [], job_analysis := []\<rparr>)"
proof -
  have r: "references_job shared_db ''X'' 2"
    "\<forall>u. references_job shared_db ''X'' u \<longrightarrow> u = 1 \<or> u = 2"
    by (auto simp: references_job_def shared_db_def)
  show ?thesis
    using delete_job_isolation [of 1 2 shared_db "''X''"
        "fst (delete_job shared_db ''X'' (Some 1))" "snd (delete_job shared_db ''X'' (Some 1))"
        "fst (delete_job (snd (delete_job shared_db ''X'' (Some 1))) ''X'' (Some 2))"
        "snd (delete_job (snd (delete_job shared_db ''X'' (Some 1))) ''X'' (Some 2))"] r
    by (simp add: shared_db_def listing_X_def delete_job_def Let_def)
qed

subsection \<open>Two-stage analysis\<close>


















subsection \<open>Title strategy: retries and parse failures\<close>

lemma range3: "[0..<3] = [0, 1, 2]"
  by (simp add: upt_rec)

text \<open>
  C4. When every call of the LLM provider raises an exception that is not a
  \<open>ValueError\<close> (the class the handler reserves for JSON-parse failures),
  \<open>TitleAnalysisStrategy.analyze\<close> calls the provider exactly three times, sleeps
  twice in between for \<open>2 * 2 ^ attempt\<close> seconds plus that backoff times 0.2 times a
  reading of \<open>random.random()\<close> (so less than 20 percent more when the reading lies
  in [0, 1)), and returns the fallback pair with the text of the last exception; it
  does not raise.
\<close>

theorem title_retry_then_fallback:
  assumes "\<forall>k. llm k prompt = Inl (err k) \<and> \<not> is_ValueError (err k)"
      and "n = length (llm_calls w)" and "r = random_reads w"
      and "\<forall>k. 0 \<le> rnd k \<and> rnd k < 1"
  shows "TitleAnalysisStrategy_analyze (TitleAnalysisStrategy llm parser) rnd prompt w =
    (Inr (Some (JNum 0, JObj [(''estimated_relevance'', JNum 0),
                              (''reasoning'', JStr ''API error''),
                              (''error'', JStr (str_exn (err (n + 2))))])),
     w\<lparr>llm_calls := llm_calls w @ [prompt, prompt, prompt],
       sleeps := sleeps w @ [2 * 2 ^ 0 + 2 * 2 ^ 0 * (2 / 10) * rnd r,
                            2 * 2 ^ 1 + 2 * 2 ^ 1 * (2 / 10) * rnd (r + 1)],
       random_reads := r + 2\<rparr>)
     \<and> 2 \<le> 2 * 2 ^ 0 + 2 * 2 ^ 0 * (2 / 10) * rnd r
     \<and> 2 * 2 ^ 0 + 2 * 2 ^ 0 * (2 / 10) * rnd r < 2 + 2 * (2 / 10)
     \<and> 4 \<le> 2 * 2 ^ 1 + 2 * 2 ^ 1 * (2 / 10) * rnd (r + 1)
     \<and> 2 * 2 ^ 1 + 2 * 2 ^ 1 * (2 / 10) * rnd (r + 1) < 4 + 4 * (2 / 10)"
proof -
  have 0: "llm (length (llm_calls w)) prompt = Inl (err n)" "\<not> is_ValueError (err n)"
    using assms by simp_all
  have 1: "llm (Suc (length (llm_calls w))) prompt = Inl (err (n + 1))"
      "\<not> is_ValueError (err (n + 1))"
    using assms by simp_all
  have 2: "llm (Suc (Suc (length (llm_calls w)))) prompt = Inl (err (n + 2))"
      "\<not> is_ValueError (err (n + 2))"
    using assms by simp_all
  have run: "TitleAnalysisStrategy_analyze (TitleAnalysisStrategy llm parser) rnd prompt w =
    (Inr (Some (JNum 0, JObj [(''estimated_relevance'', JNum 0),
                              (''reasoning'', JStr ''API error''),
                              (''error'', JStr (str_exn (err (n + 2))))])),
     w\<lparr>llm_calls := llm_calls w @ [prompt, prompt, prompt],
       sleeps := sleeps w @ [2 * 2 ^ 0 + 2 * 2 ^ 0 * (2 / 10) * rnd r,
                            2 * 2 ^ 1 + 2 * 2 ^ 1 * (2 / 10) * rnd (r + 1)],
       random_reads := r + 2\<rparr>)"
    using 0 1 2 assms(3)
    by (simp add: TitleAnalysisStrategy_analyze_def TitleAnalysisStrategy_def range3
        title_attempt_def Let_def)
  have j0: "0 \<le> rnd r" "rnd r < 1" and j1: "0 \<le> rnd (r + 1)" "rnd (r + 1) < 1"
    using assms(4) by simp_all
  show ?thesis using run j0 j1 by simp
qed

theorem title_retry_then_fallback_witness:
  "TitleAnalysisStrategy_analyze
     (TitleAnalysisStrategy (\<lambda>k p. Inl (OtherException ''timeout'')) (\<lambda>s. Inr (JObj [])))
     (\<lambda>k. 1 / 2) ''prompt'' \<lparr>llm_calls = [], sleeps = [], random_reads = 0\<rparr> =
    (Inr (Some (JNum 0, JObj [(''estimated_relevance'', JNum 0),
                              (''reasoning'', JStr ''API error''),
                              (''error'', JStr ''timeout'')])),
     \<lparr>llm_calls = [''prompt'', ''prompt'', ''prompt''], sleeps = [22 / 10, 44 / 10],
      random_reads = 2\<rparr>)"
  using title_retry_then_fallback [where llm = "\<lambda>k p. Inl (OtherException ''timeout'')"
      and prompt = "''prompt''" and err = "\<lambda>k. OtherException ''timeout''" and n = 0
      and w = "\<lparr>llm_calls = [], sleeps = [], random_reads = 0\<rparr>" and r = 0
      and parser = "\<lambda>s. Inr (JObj [])" and rnd = "\<lambda>k. 1 / 2"]
  by simp






end
